theory Spec2Isabelle
  imports Complex_Main "HOL-Library.Log_Nat" "HOL-Library.Multiset"
begin

section \<open>JavaScript numbers\<close>

text \<open>
  Every JavaScript number of the component is a finite binary64 value. The model
  represents such a number by the rational it denotes exactly, and every arithmetic
  operation by the exact operation followed by rounding to the nearest value with a
  53-bit significand, ties to the even significand. The exponent range is not
  modelled: every magnitude that occurs below lies between \<open>2 powi (-1022)\<close> and
  \<open>2 powi 1024\<close>, where binary64 has no overflow and no gradual underflow.
\<close>

definition floor_log2 :: "rat \<Rightarrow> int" where
  \<comment> \<open>For \<open>0 < x\<close>: the binary exponent \<open>e\<close> with \<open>2 powi e \<le> x < 2 powi (e + 1)\<close>.\<close>
  "floor_log2 x = (let (p, q) = quotient_of x; d = bitlen p - bitlen q
                   in if 2 powi d \<le> x then d else d - 1)"

definition round_half_even :: "rat \<Rightarrow> int" where
  "round_half_even x = (let f = \<lfloor>x\<rfloor>; r = x - of_int f
     in if r < 1 / 2 then f else if 1 / 2 < r then f + 1
        else if even f then f else f + 1)"

definition dbl :: "rat \<Rightarrow> rat" where
  \<comment> \<open>The binary64 value nearest to \<open>x\<close>; also the value of the numeric literal \<open>x\<close>.\<close>
  "dbl x = (if x = 0 then 0 else
     let q = 2 powi (floor_log2 \<bar>x\<bar> - 52)
     in sgn x * of_int (round_half_even (\<bar>x\<bar> / q)) * q)"

definition js_sub :: "rat \<Rightarrow> rat \<Rightarrow> rat" where
  "js_sub a b = dbl (a - b)"

definition js_mul :: "rat \<Rightarrow> rat \<Rightarrow> rat" where
  "js_mul a b = dbl (a * b)"

definition js_div :: "rat \<Rightarrow> rat \<Rightarrow> rat" where
  \<comment> \<open>Only called with \<open>b \<noteq> 0\<close>: the source guards its one division.\<close>
  "js_div a b = dbl (a / b)"

text \<open>
  \<open>x.toFixed(1)\<close> returns the decimal string with one fractional digit that is
  nearest to the exact value of \<open>x\<close>; of two nearest ones it takes the one of larger
  magnitude (ECMAScript: for negative \<open>x\<close> the sign is split off first, then
  ``let n be an integer for which n / 10 - x is as close to zero as possible; if
  there are two such n, pick the larger n''). The string is modelled by its signed
  number of tenths: \<open>"490.9"\<close> is \<open>4909\<close>. (For \<open>x\<close> of magnitude \<open>10^21\<close> and more
  \<open>toFixed\<close> answers differently; no such value occurs.)
\<close>

definition toFixed1 :: "rat \<Rightarrow> int" where
  "toFixed1 x = (if x < 0 then - \<lfloor>- x * 10 + 1 / 2\<rfloor> else \<lfloor>x * 10 + 1 / 2\<rfloor>)"

text \<open>
  The constant \<open>growthRate\<close> of the source holds either the string returned by
  \<open>toFixed(1)\<close> or the number \<open>0\<close>; \<open>parseFloat\<close> takes both.
\<close>

datatype js_value = Fixed1 int | Number rat

fun parseFloat :: "js_value \<Rightarrow> rat" where
  "parseFloat (Fixed1 n) = dbl (of_int n / 10)"
| "parseFloat (Number x) = x"

section \<open>The literal tables\<close>

record year_row =
  year :: int

record counts_row = year_row +
  network_server :: int
  email :: int
  electronic_medical_record :: int
  paper_films :: int
  other :: int
  desktop_computer :: int
  total_count :: int

record percentage_row = year_row +
  network_server_pct :: rat
  email_pct :: rat
  electronic_medical_record_pct :: rat
  paper_films_pct :: rat
  other_pct :: rat
  desktop_computer_pct :: rat

record growth_point = year_row +
  growth :: rat

record growth_rate =
  name :: string
  cagr :: rat

definition counts :: "int \<Rightarrow> int \<Rightarrow> int \<Rightarrow> int \<Rightarrow> int \<Rightarrow> int \<Rightarrow> int \<Rightarrow> int \<Rightarrow> counts_row" where
  \<comment> \<open>One object literal of \<open>locationTrendsData\<close>, its fields in the order written.\<close>
  "counts y ns em emr pf ot dc tot =
     \<lparr>year = y, network_server = ns, email = em, electronic_medical_record = emr,
      paper_films = pf, other = ot, desktop_computer = dc, total_count = tot\<rparr>"

definition locationTrendsData :: "counts_row list" where
  "locationTrendsData =
    [counts 2015 11 15 9 17 9 4 65,
     counts 2016 65 30 18 25 40 12 190,
     counts 2017 65 65 21 14 40 5 210,
     counts 2018 48 80 14 26 38 8 214,
     counts 2019 97 149 18 20 50 9 343,
     counts 2020 199 167 22 24 40 3 455,
     counts 2021 264 155 24 9 28 2 482,
     counts 2022 258 137 53 6 18 3 475,
     counts 2023 302 104 19 13 10 2 450,
     counts 2024 330 134 17 12 21 3 517,
     counts 2025 111 42 8 4 8 0 173]"

definition percentages :: "int \<Rightarrow> rat \<Rightarrow> rat \<Rightarrow> rat \<Rightarrow> rat \<Rightarrow> rat \<Rightarrow> rat \<Rightarrow> percentage_row" where
  \<comment> \<open>One object literal of \<open>percentageDistributionData\<close>; each decimal literal
      denotes the nearest binary64 value.\<close>
  "percentages y ns em emr pf ot dc =
     \<lparr>year = y, network_server_pct = dbl ns, email_pct = dbl em,
      electronic_medical_record_pct = dbl emr, paper_films_pct = dbl pf,
      other_pct = dbl ot, desktop_computer_pct = dbl dc\<rparr>"

definition percentageDistributionData :: "percentage_row list" where
  "percentageDistributionData =
    [percentages 2015 16.9 23.1 13.8 26.2 13.8 6.2,
     percentages 2016 34.2 15.8 9.5 13.2 21.1 6.3,
     percentages 2017 31.0 31.0 10.0 6.7 19.0 2.4,
     percentages 2018 22.4 37.4 6.5 12.1 17.8 3.7,
     percentages 2019 28.3 43.4 5.2 5.8 14.6 2.6,
     percentages 2020 43.7 36.7 4.8 5.3 8.8 0.7,
     percentages 2021 54.8 32.2 5.0 1.9 5.8 0.4,
     percentages 2022 54.3 28.8 11.2 1.3 3.8 0.6,
     percentages 2023 67.1 23.1 4.2 2.9 2.2 0.4,
     percentages 2024 63.8 25.9 3.3 2.3 4.1 0.6,
     percentages 2025 64.2 24.3 4.6 2.3 4.6 0.0]"

section \<open>The Network Server growth series\<close>

definition growthRate :: "counts_row \<Rightarrow> counts_row \<Rightarrow> js_value" where
  "growthRate prevYear item =
     (if network_server prevYear > 0
      then Fixed1 (toFixed1
             (js_mul
                (js_div
                   (js_sub (of_int (network_server item)) (of_int (network_server prevYear)))
                   (of_int (network_server prevYear)))
                100))
      else Number 0)"

definition growth_callback :: "counts_row \<Rightarrow> nat \<Rightarrow> counts_row list \<Rightarrow> growth_point" where
  \<comment> \<open>The arrow function given to \<open>map\<close>; \<open>index - 1\<close> is in range when \<open>index\<close> is
      positive and in range.\<close>
  "growth_callback item index array =
     (if index = 0 then \<lparr>year = year item, growth = 0\<rparr>
      else let prevYear = array ! (index - 1)
           in \<lparr>year = year item, growth = parseFloat (growthRate prevYear item)\<rparr>)"

definition array_map :: "('a \<Rightarrow> nat \<Rightarrow> 'a list \<Rightarrow> 'b) \<Rightarrow> 'a list \<Rightarrow> 'b list" where
  \<comment> \<open>\<open>Array.prototype.map\<close> with its three callback arguments.\<close>
  "array_map f xs = map (\<lambda>i. f (xs ! i) i xs) [0..<length xs]"

definition networkServerGrowth :: "counts_row list \<Rightarrow> growth_point list" where
  "networkServerGrowth table =
     filter (\<lambda>item. year item < 2025) (array_map growth_callback table)"

definition networkServerGrowthData :: "growth_point list" where
  "networkServerGrowthData = networkServerGrowth locationTrendsData"

definition category_sum :: "counts_row \<Rightarrow> int" where
  \<comment> \<open>The sum of the six category counts of a row, as the row-sum invariant reads.\<close>
  "category_sum r = network_server r + email r + electronic_medical_record r
                    + paper_films r + other r + desktop_computer r"

section \<open>The CAGR ranking\<close>

definition rate :: "string \<Rightarrow> rat \<Rightarrow> growth_rate" where
  \<comment> \<open>One object literal of \<open>locationGrowthRates\<close>.\<close>
  "rate n c = \<lparr>name = n, cagr = dbl c\<rparr>"

definition locationGrowthRates_literal :: "growth_rate list" where
  \<comment> \<open>The array literal, before \<open>sort\<close> is called on it.\<close>
  "locationGrowthRates_literal =
    [rate ''Network Server'' 45.92,
     rate ''Email'' 27.55,
     rate ''Electronic Medical Record'' 7.32,
     rate ''Other'' 9.87,
     rate ''Paper/Films'' (- 3.80),
     rate ''Desktop Computer'' (- 3.15)]"

text \<open>
  \<open>Array.prototype.sort\<close> is stable, and with a consistent comparator its result is
  the one stable sorted arrangement of the array, whatever algorithm the engine runs.
  The model computes that arrangement by insertion: an element goes in front of the
  first element it does not have to follow, so equal elements keep their order.
\<close>

fun insert_by :: "('a \<Rightarrow> 'a \<Rightarrow> rat) \<Rightarrow> 'a \<Rightarrow> 'a list \<Rightarrow> 'a list" where
  "insert_by cmp x [] = [x]"
| "insert_by cmp x (y # ys) =
     (if cmp x y \<le> 0 then x # y # ys else y # insert_by cmp x ys)"

definition array_sort :: "('a \<Rightarrow> 'a \<Rightarrow> rat) \<Rightarrow> 'a list \<Rightarrow> 'a list" where
  "array_sort cmp xs = foldr (insert_by cmp) xs []"

definition cagr_comparator :: "growth_rate \<Rightarrow> growth_rate \<Rightarrow> rat" where
  \<comment> \<open>\<open>(a, b) => b.cagr - a.cagr\<close>\<close>
  "cagr_comparator a b = js_sub (cagr b) (cagr a)"

definition ranking :: "growth_rate list \<Rightarrow> growth_rate list" where
  "ranking rs = array_sort cagr_comparator rs"

definition locationGrowthRates :: "growth_rate list" where
  "locationGrowthRates = ranking locationGrowthRates_literal"

section \<open>The arrays as objects\<close>

text \<open>
  \<open>map\<close> and \<open>filter\<close> build new arrays and leave their receiver as it is;
  \<open>sort\<close> reorders its receiver in place and returns that same array. With the two
  literal arrays as the state, a derivation returns its result and the state it leaves.
\<close>

record arrays =
  trends :: "counts_row list"
  rates :: "growth_rate list"

definition derive_growth :: "arrays \<Rightarrow> growth_point list \<times> arrays" where
  "derive_growth s = (networkServerGrowth (trends s), s)"

definition derive_ranking :: "arrays \<Rightarrow> growth_rate list \<times> arrays" where
  "derive_ranking s = (let sorted = ranking (rates s) in (sorted, s\<lparr>rates := sorted\<rparr>))"

definition literals :: arrays where
  \<comment> \<open>Each run of the component function evaluates the two array literals afresh.\<close>
  "literals = \<lparr>trends = locationTrendsData, rates = locationGrowthRates_literal\<rparr>"

section \<open>The chart views\<close>

definition COLORS :: "string \<rightharpoonup> string" where
  \<comment> \<open>The object \<open>COLORS\<close>; a key it does not have reads as \<open>undefined\<close>, here \<open>None\<close>.\<close>
  "COLORS = map_of
    [(''Network Server'', ''#8884d8''),
     (''Email'', ''#82ca9d''),
     (''Electronic Medical Record'', ''#ffc658''),
     (''Paper/Films'', ''#ff8042''),
     (''Other'', ''#a4de6c''),
     (''Desktop Computer'', ''#d0ed57'')]"

definition categories :: "string list" where
  "categories = [''Network Server'', ''Email'', ''Electronic Medical Record'',
                 ''Paper/Films'', ''Other'', ''Desktop Computer'']"

datatype tag = Line | Area | Bar

datatype chart_tag = LineChart | AreaChart | BarChart

text \<open>
  A series element with the props that decide its data and its colour; a prop that is
  not written, or whose value is \<open>undefined\<close>, is \<open>None\<close>.
\<close>

datatype element =
  Element (element_tag: tag) (dataKey: string) (stroke: "string option")
          (fill: "string option") (children: "element list")

datatype dataset =
    Counts "counts_row list"
  | Percentages "percentage_row list"
  | Growth "growth_point list"
  | Rates "growth_rate list"

record chart =
  heading :: string
  container :: chart_tag
  data :: dataset
  category_axis :: string
  series :: "element list"

definition absolute_chart :: chart where
  "absolute_chart =
    \<lparr>heading = ''Absolute Number of Breaches by System Location'',
     container = LineChart, data = Counts locationTrendsData, category_axis = ''year'',
     series =
      [Element Line ''Network Server'' (COLORS ''Network Server'') None [],
       Element Line ''Email'' (COLORS ''Email'') None [],
       Element Line ''Electronic Medical Record'' (COLORS ''Electronic Medical Record'') None [],
       Element Line ''Paper/Films'' (COLORS ''Paper/Films'') None [],
       Element Line ''Other'' (COLORS ''Other'') None [],
       Element Line ''Desktop Computer'' (COLORS ''Desktop Computer'') None []]\<rparr>"

definition percentage_chart :: chart where
  "percentage_chart =
    \<lparr>heading = ''Percentage Distribution of Breaches by System Location'',
     container = LineChart, data = Percentages percentageDistributionData,
     category_axis = ''year'',
     series =
      [Element Line ''Network Server (%)'' (COLORS ''Network Server'') None [],
       Element Line ''Email (%)'' (COLORS ''Email'') None [],
       Element Line ''Electronic Medical Record (%)'' (COLORS ''Electronic Medical Record'') None [],
       Element Line ''Paper/Films (%)'' (COLORS ''Paper/Films'') None [],
       Element Line ''Other (%)'' (COLORS ''Other'') None [],
       Element Line ''Desktop Computer (%)'' (COLORS ''Desktop Computer'') None []]\<rparr>"

definition stacked_chart :: chart where
  "stacked_chart =
    \<lparr>heading = ''Stacked View of Breaches by System Location'',
     container = AreaChart, data = Counts locationTrendsData, category_axis = ''year'',
     series =
      [Element Area ''Network Server'' (COLORS ''Network Server'') (COLORS ''Network Server'') [],
       Element Area ''Email'' (COLORS ''Email'') (COLORS ''Email'') [],
       Element Area ''Electronic Medical Record'' (COLORS ''Electronic Medical Record'')
         (COLORS ''Electronic Medical Record'') [],
       Element Area ''Paper/Films'' (COLORS ''Paper/Films'') (COLORS ''Paper/Films'') [],
       Element Area ''Other'' (COLORS ''Other'') (COLORS ''Other'') [],
       Element Area ''Desktop Computer'' (COLORS ''Desktop Computer'')
         (COLORS ''Desktop Computer'') []]\<rparr>"

definition networkServerGrowth_chart :: chart where
  "networkServerGrowth_chart =
    \<lparr>heading = ''Annual Growth Rate of Network Server Breaches'',
     container = BarChart, data = Growth networkServerGrowthData, category_axis = ''year'',
     series = [Element Bar ''growth'' None (COLORS ''Network Server'') []]\<rparr>"

definition growthComparison_chart :: chart where
  \<comment> \<open>The one \<open>Bar\<close> has the fixed fill \<open>#8884d8\<close>; its children are one \<open>Bar\<close> for each
      entry of the ranking, filled by the sign of the entry's CAGR.\<close>
  "growthComparison_chart =
    \<lparr>heading = ''Compound Annual Growth Rate by Location (2015-2024)'',
     container = BarChart, data = Rates locationGrowthRates, category_axis = ''name'',
     series =
      [Element Bar ''cagr'' None (Some ''#8884d8'')
         (map (\<lambda>entry. Element Bar ''cagr'' None
                 (Some (if cagr entry \<ge> 0 then ''#82ca9d'' else ''#ff7373'')) [])
              locationGrowthRates)]\<rparr>"

definition initial_chartType :: string where
  \<comment> \<open>\<open>useState('absolute')\<close>\<close>
  "initial_chartType = ''absolute''"

definition chart_area :: "string \<Rightarrow> chart list" where
  \<comment> \<open>The children of the chart container: five times \<open>chartType === '...' && (...)\<close>,
      each of which renders its chart or nothing.\<close>
  "chart_area chartType =
     (if chartType = ''absolute'' then [absolute_chart] else [])
     @ (if chartType = ''percentage'' then [percentage_chart] else [])
     @ (if chartType = ''stacked'' then [stacked_chart] else [])
     @ (if chartType = ''networkServerGrowth'' then [networkServerGrowth_chart] else [])
     @ (if chartType = ''growthComparison'' then [growthComparison_chart] else [])"

definition view_ids :: "string list" where
  \<comment> \<open>The values of the five \<open>option\<close> elements of the selector.\<close>
  "view_ids = [''absolute'', ''percentage'', ''stacked'', ''networkServerGrowth'',
               ''growthComparison'']"




section \<open>The growth formula as specified\<close>

definition spec_round1 :: "rat \<Rightarrow> rat" where
  \<comment> \<open>Rounding to one decimal place, in exact arithmetic.\<close>
  "spec_round1 x = of_int (round (x * 10)) / 10"

definition spec_growth :: "int \<Rightarrow> int \<Rightarrow> rat" where
  \<comment> \<open>\<open>(C - P) / P * 100\<close> rounded to one decimal place when \<open>P > 0\<close>, else \<open>0\<close>; the
      decimal stands for the JavaScript number it denotes.\<close>
  "spec_growth P C =
     (if P > 0 then dbl (spec_round1 ((of_int C - of_int P) / of_int P * 100)) else 0)"

definition descending :: "growth_rate list \<Rightarrow> bool" where
  \<comment> \<open>No entry is followed, anywhere later, by one of larger CAGR.\<close>
  "descending rs = sorted_wrt (\<lambda>a b. cagr b \<le> cagr a) rs"

definition percentage_sum :: "percentage_row \<Rightarrow> rat" where
  \<comment> \<open>The exact sum of the six percentage values of a row.\<close>
  "percentage_sum r = network_server_pct r + email_pct r + electronic_medical_record_pct r
                      + paper_films_pct r + other_pct r + desktop_computer_pct r"

section \<open>Rounding keeps the sign\<close>

lemma floor_log2_lower:
  assumes "0 < x"
  shows "2 powi (floor_log2 x) \<le> x"
proof -
  obtain p q where pq: "quotient_of x = (p, q)" by (cases "quotient_of x")
  have q: "0 < q" using pq by (rule quotient_of_denom_pos)
  have x: "x = of_int p / of_int q" using pq by (rule quotient_of_div)
  have p: "0 < p" using assms q x by (simp add: zero_less_divide_iff)
  define d where "d = bitlen p - bitlen q"
  show ?thesis
  proof (cases "2 powi d \<le> x")
    case True
    then show ?thesis by (simp add: floor_log2_def pq d_def)
  next
    case False
    have bp: "1 \<le> bitlen p" using p bitlen_eq_zero_iff [of p] bitlen_nonneg [of p] by linarith
    have bq: "0 \<le> bitlen q" by (rule bitlen_nonneg)
    have "(2::int) ^ nat (bitlen p - 1) \<le> p" using bitlen_bounds [OF p] by simp
    then have "(of_int ((2::int) ^ nat (bitlen p - 1)) :: rat) \<le> of_int p" by (simp only: of_int_le_iff)
    then have lo: "(2::rat) powi (bitlen p - 1) \<le> of_int p"
      using bp by (simp add: power_int_def)
    have "q < 2 ^ nat (bitlen q)" using bitlen_bounds [OF q] by simp
    then have "(of_int q :: rat) < of_int ((2::int) ^ nat (bitlen q))" by (simp only: of_int_less_iff)
    then have hi: "of_int q < (2::rat) powi (bitlen q)"
      using bq by (simp add: power_int_def)
    have "d - 1 = (bitlen p - 1) - bitlen q" by (simp add: d_def)
    then have "(2::rat) powi (d - 1) = 2 powi (bitlen p - 1) / 2 powi (bitlen q)"
      by (simp only: power_int_diff [of "2::rat", simplified])
    also have "\<dots> \<le> of_int p / 2 powi (bitlen q)"
      using lo by (simp add: divide_right_mono)
    also have "\<dots> \<le> of_int p / of_int q"
      using hi p q by (simp add: frac_le)
    finally have "(2::rat) powi (d - 1) \<le> x" using x by simp
    with False show ?thesis by (simp add: floor_log2_def pq d_def)
  qed
qed

lemma round_half_even_ge: "\<lfloor>x\<rfloor> \<le> round_half_even x"
  by (simp add: round_half_even_def Let_def)

lemma dbl_pos: assumes "0 < x" shows "0 < dbl x"
proof -
  define q :: rat where "q = 2 powi (floor_log2 \<bar>x\<bar> - 52)"
  have q: "0 < q" by (simp add: q_def)
  have "2 powi (floor_log2 x) \<le> x" using assms by (rule floor_log2_lower)
  then have "2 powi (floor_log2 x) / q \<le> x / q" using q by (simp add: divide_right_mono)
  moreover have "2 powi (floor_log2 x) / q = 2 ^ 52"
    using assms by (simp add: q_def power_int_diff)
  ultimately have "1 \<le> x / q" by simp
  then have "1 \<le> \<lfloor>x / q\<rfloor>" by simp
  then have "1 \<le> round_half_even (x / q)" using round_half_even_ge [of "x / q"] by linarith
  then have "0 < (of_int (round_half_even (x / q)) :: rat)" by simp
  then have "0 < of_int (round_half_even (x / q)) * q" using q by simp
  then show ?thesis using assms by (simp add: dbl_def Let_def q_def)
qed

lemma dbl_minus: "dbl (- x) = - dbl x"
  by (simp add: dbl_def Let_def sgn_minus)

lemma dbl_le_0_iff: "dbl x \<le> 0 \<longleftrightarrow> x \<le> 0"
proof (cases "0 < x")
  case True
  then show ?thesis using dbl_pos [of x] by simp
next
  case False
  then have "0 \<le> - x" by simp
  then have "0 \<le> dbl (- x)" using dbl_pos [of "- x"] by (cases "x = 0") (simp_all add: dbl_def less_imp_le)
  then show ?thesis using False by (simp add: dbl_minus)
qed


section \<open>Rounding is to a nearest value\<close>

text \<open>
  \<open>floor_log2\<close> is the binary exponent, and \<open>dbl x\<close> is a multiple of the unit in
  the last place of \<open>x\<close> that is at most half such a unit away from \<open>x\<close>.
\<close>

lemma floor_log2_upper:
  assumes "0 < x"
  shows "x < 2 powi (floor_log2 x + 1)"
proof -
  obtain p q where pq: "quotient_of x = (p, q)" by (cases "quotient_of x")
  have q: "0 < q" using pq by (rule quotient_of_denom_pos)
  have x: "x = of_int p / of_int q" using pq by (rule quotient_of_div)
  have p: "0 < p" using assms q x by (simp add: zero_less_divide_iff)
  define d where "d = bitlen p - bitlen q"
  show ?thesis
  proof (cases "2 powi d \<le> x")
    case True
    have bp: "0 \<le> bitlen p" by (rule bitlen_nonneg)
    have bq: "1 \<le> bitlen q" using q bitlen_eq_zero_iff [of q] bitlen_nonneg [of q] by linarith
    have "p < 2 ^ nat (bitlen p)" using bitlen_bounds [OF p] by simp
    then have "(of_int p :: rat) < of_int ((2::int) ^ nat (bitlen p))" by (simp only: of_int_less_iff)
    then have hi: "of_int p < (2::rat) powi (bitlen p)"
      using bp by (simp add: power_int_def)
    have "(2::int) ^ nat (bitlen q - 1) \<le> q" using bitlen_bounds [OF q] by simp
    then have "(of_int ((2::int) ^ nat (bitlen q - 1)) :: rat) \<le> of_int q" by (simp only: of_int_le_iff)
    then have lo: "(2::rat) powi (bitlen q - 1) \<le> of_int q"
      using bq by (simp add: power_int_def)
    have "x = of_int p / of_int q" by (rule x)
    also have "\<dots> \<le> of_int p / 2 powi (bitlen q - 1)"
      using lo p by (simp add: frac_le)
    also have "\<dots> < 2 powi (bitlen p) / 2 powi (bitlen q - 1)"
      using hi by (simp add: divide_strict_right_mono)
    also have "\<dots> = 2 powi (d + 1)"
    proof -
      have "d + 1 = bitlen p - (bitlen q - 1)" by (simp add: d_def)
      then show ?thesis by (simp only: power_int_diff [of "2::rat", simplified])
    qed
    finally show ?thesis using True by (simp add: floor_log2_def pq d_def)
  next
    case False
    then show ?thesis by (simp add: floor_log2_def pq d_def)
  qed
qed

lemma round_half_even_near: "\<bar>of_int (round_half_even y) - y\<bar> \<le> 1 / 2"
proof -
  have "of_int \<lfloor>y\<rfloor> \<le> y" "y < of_int \<lfloor>y\<rfloor> + 1" by linarith+
  then show ?thesis by (auto simp: round_half_even_def Let_def)
qed

lemma dbl_near: "\<bar>dbl x - x\<bar> \<le> 2 powi (floor_log2 \<bar>x\<bar> - 53)"
proof (cases "x = 0")
  case True
  then show ?thesis by (simp add: dbl_def)
next
  case False
  define q :: rat where "q = 2 powi (floor_log2 \<bar>x\<bar> - 52)"
  define n where "n = round_half_even (\<bar>x\<bar> / q)"
  have q: "0 < q" by (simp add: q_def)
  have "dbl x - x = sgn x * (of_int n * q - \<bar>x\<bar>)"
    using False by (simp add: dbl_def Let_def q_def n_def algebra_simps flip: mult_sgn_abs)
      (metis mult.commute mult_sgn_abs)
  also have "of_int n * q - \<bar>x\<bar> = (of_int n - \<bar>x\<bar> / q) * q"
    using q by (simp add: algebra_simps)
  finally have "\<bar>dbl x - x\<bar> = \<bar>of_int n - \<bar>x\<bar> / q\<bar> * q"
    using False q by (simp add: abs_mult abs_sgn_eq)
  also have "\<dots> \<le> 1 / 2 * q"
    using round_half_even_near [of "\<bar>x\<bar> / q"] q by (simp add: n_def mult_right_mono)
  also have "1 / 2 * q = 2 powi (floor_log2 \<bar>x\<bar> - 53)"
  proof -
    have "floor_log2 \<bar>x\<bar> - 53 = (floor_log2 \<bar>x\<bar> - 52) - 1" by simp
    then show ?thesis by (simp only: q_def power_int_diff [of "2::rat", simplified]) simp
  qed
  finally show ?thesis .
qed

section \<open>The counts table\<close>

lemma locationTrendsData_years:
  "map year locationTrendsData =
     [2015, 2016, 2017, 2018, 2019, 2020, 2021, 2022, 2023, 2024, 2025]"
  by (simp add: locationTrendsData_def counts_def)

lemma locationTrendsData_network_server:
  "map network_server locationTrendsData =
     [11, 65, 65, 48, 97, 199, 264, 258, 302, 330, 111]"
  by (simp add: locationTrendsData_def counts_def)

lemma locationTrendsData_sums:
  "map category_sum locationTrendsData = map total_count locationTrendsData"
  by (simp add: locationTrendsData_def counts_def category_sum_def)

text \<open>
  C3. The counts table has the 11 year rows 2015 to 2025, and in every one of them the
  six category counts (Network Server, Email, Electronic Medical Record, Paper/Films,
  Other, Desktop Computer) add up to exactly the row's Total.
\<close>

theorem counts_rows_sum_to_total:
  "map year locationTrendsData = [2015, 2016, 2017, 2018, 2019, 2020, 2021, 2022, 2023, 2024, 2025]
   \<and> (\<forall>r \<in> set locationTrendsData. category_sum r = total_count r)"
proof -
  have "\<forall>i < length locationTrendsData.
          category_sum (locationTrendsData ! i) = total_count (locationTrendsData ! i)"
  proof (intro allI impI)
    fix i assume i: "i < length locationTrendsData"
    have "map category_sum locationTrendsData ! i = map total_count locationTrendsData ! i"
      by (simp only: locationTrendsData_sums)
    with i show "category_sum (locationTrendsData ! i) = total_count (locationTrendsData ! i)"
      by simp
  qed
  then have "\<forall>r \<in> set locationTrendsData. category_sum r = total_count r"
    by (auto simp: in_set_conv_nth)
  with locationTrendsData_years show ?thesis by simp
qed

theorem counts_rows_sum_to_total_witness:
  "counts 2019 97 149 18 20 50 9 343 \<in> set locationTrendsData
   \<and> category_sum (counts 2019 97 149 18 20 50 9 343) = total_count (counts 2019 97 149 18 20 50 9 343)"
proof -
  have m: "counts 2019 97 149 18 20 50 9 343 \<in> set locationTrendsData"
    by (simp add: locationTrendsData_def)
  from counts_rows_sum_to_total have
    "\<forall>r \<in> set locationTrendsData. category_sum r = total_count r" by simp
  with m show ?thesis by blast
qed

section \<open>The growth series\<close>

lemma networkServerGrowthData_eval:
  "networkServerGrowthData =
    [\<lparr>year = 2015, growth = 0\<rparr>,
     \<lparr>year = 2016, growth = dbl 490.9\<rparr>,
     \<lparr>year = 2017, growth = 0\<rparr>,
     \<lparr>year = 2018, growth = dbl (- 26.2)\<rparr>,
     \<lparr>year = 2019, growth = dbl 102.1\<rparr>,
     \<lparr>year = 2020, growth = dbl 105.2\<rparr>,
     \<lparr>year = 2021, growth = dbl 32.7\<rparr>,
     \<lparr>year = 2022, growth = dbl (- 2.3)\<rparr>,
     \<lparr>year = 2023, growth = dbl 17.1\<rparr>,
     \<lparr>year = 2024, growth = dbl 9.3\<rparr>]"
  by code_simp

lemma spec_growth_values:
  "spec_growth 11 65 = dbl 490.9"
  "spec_growth 65 65 = 0"
  "spec_growth 65 48 = dbl (- 26.2)"
  "spec_growth 48 97 = dbl 102.1"
  "spec_growth 97 199 = dbl 105.2"
  "spec_growth 199 264 = dbl 32.7"
  "spec_growth 264 258 = dbl (- 2.3)"
  "spec_growth 258 302 = dbl 17.1"
  "spec_growth 302 330 = dbl 9.3"
  by code_simp+

text \<open>
  The counts are integers that binary64 holds exactly, and the point of 2016 is computed
  in these steps: \<open>54 / 11\<close> is rounded, its product with 100 is rounded again
  (to 490.90909090909093), \<open>toFixed(1)\<close> gives \<open>"490.9"\<close>, and \<open>parseFloat\<close> the
  number 490.9.
\<close>

lemma counts_exact:
  "list_all (\<lambda>r. dbl (of_int (network_server r)) = of_int (network_server r)) locationTrendsData"
  by code_simp

lemma growth_2016_steps:
  "js_sub 65 11 = 54"
  "js_div 54 11 = 5527144997227427 / 2 ^ 50"
  "js_mul (5527144997227427 / 2 ^ 50) 100 = 8636164058167855 / 2 ^ 44"
  "toFixed1 (8636164058167855 / 2 ^ 44) = 4909"
  "parseFloat (Fixed1 4909) = 4318002064601907 / 2 ^ 43"
  by code_simp+

lemma growthRate_zero: "network_server prevYear = 0 \<Longrightarrow> parseFloat (growthRate prevYear item) = 0"
  by (simp add: growthRate_def)

lemma year_growth_callback: "year (growth_callback item index array) = year item"
  by (simp add: growth_callback_def Let_def)

lemma map_year_array_map: "map year (array_map growth_callback xs) = map year xs"
  by (rule nth_equalityI) (simp_all add: array_map_def year_growth_callback)

lemma map_year_networkServerGrowth:
  "map year (networkServerGrowth table) = filter (\<lambda>y. y < 2025) (map year table)"
proof -
  have "map year (networkServerGrowth table)
        = filter (\<lambda>y. y < 2025) (map year (array_map growth_callback table))"
    by (simp add: networkServerGrowth_def filter_map comp_def)
  then show ?thesis by (simp only: map_year_array_map)
qed

text \<open>
  C1, as stated, fails: the series has ten points, not nine, and its first point is the
  one of 2015.
\<close>

theorem growth_series_length_counterexample:
  "length networkServerGrowthData \<noteq> 9 \<and> year (networkServerGrowthData ! 0) = 2015"
  by (simp add: networkServerGrowthData_eval)

text \<open>
  C1, amended. The series has one point for every row of the table whose year is before
  2025, in the order of the table: for the literal table the ten years 2015 to 2024,
  which is the 11 rows less the one of 2025. The row of 2015 is kept; its point has the
  growth 0. No point has the year 2025.
\<close>

theorem growth_series_years:
  "map year (networkServerGrowth table) = filter (\<lambda>y. y < 2025) (map year table)
   \<and> map year networkServerGrowthData =
       [2015, 2016, 2017, 2018, 2019, 2020, 2021, 2022, 2023, 2024]
   \<and> length locationTrendsData = 11
   \<and> length networkServerGrowthData = 10
   \<and> networkServerGrowthData ! 0 = \<lparr>year = 2015, growth = 0\<rparr>
   \<and> 2025 \<notin> set (map year networkServerGrowthData)"
proof -
  have "length locationTrendsData = 11" by (simp add: locationTrendsData_def)
  then show ?thesis
    by (simp add: map_year_networkServerGrowth networkServerGrowthData_eval)
qed

lemma nth_cases_10: "0 < i \<Longrightarrow> i < 10 \<Longrightarrow> i \<in> {1, 2, 3, 4, 5, 6, 7, 8, 9::nat}"
  by auto

text \<open>
  C2. Every point of the series after the first is the point of a year \<open>Y\<close> with the
  Network Server count \<open>P\<close> of the row before and \<open>C\<close> of the row of \<open>Y\<close>, and its
  growth is \<open>(C - P) / P * 100\<close> rounded to one decimal place when \<open>P > 0\<close>, and 0
  otherwise. For any two rows, a count \<open>P\<close> of zero in the earlier one makes the
  growth 0. The point of 2016, with \<open>P = 11\<close> and \<open>C = 65\<close>, has the growth 490.9.
\<close>

theorem growth_points_follow_formula:
  "(\<forall>i. 0 < i \<and> i < length networkServerGrowthData \<longrightarrow>
      networkServerGrowthData ! i =
        \<lparr>year = year (locationTrendsData ! i),
         growth = spec_growth (network_server (locationTrendsData ! (i - 1)))
                              (network_server (locationTrendsData ! i))\<rparr>)
   \<and> (\<forall>prevYear item.
         network_server prevYear = 0 \<longrightarrow> parseFloat (growthRate prevYear item) = 0)
   \<and> network_server (locationTrendsData ! 0) = 11
   \<and> network_server (locationTrendsData ! 1) = 65
   \<and> networkServerGrowthData ! 1 = \<lparr>year = 2016, growth = dbl 490.9\<rparr>"
proof (intro conjI allI impI)
  fix prevYear item :: counts_row
  assume "network_server prevYear = 0"
  then show "parseFloat (growthRate prevYear item) = 0" by (rule growthRate_zero)
next
  fix i assume "0 < i \<and> i < length networkServerGrowthData"
  moreover have "length networkServerGrowthData = 10"
    by (simp add: networkServerGrowthData_eval)
  ultimately have "i \<in> {1, 2, 3, 4, 5, 6, 7, 8, 9::nat}"
    by (intro nth_cases_10) simp_all
  then show "networkServerGrowthData ! i =
        \<lparr>year = year (locationTrendsData ! i),
         growth = spec_growth (network_server (locationTrendsData ! (i - 1)))
                              (network_server (locationTrendsData ! i))\<rparr>"
    by (elim insertE emptyE)
       (simp_all add: networkServerGrowthData_eval locationTrendsData_def counts_def
          spec_growth_values)
qed (simp_all add: networkServerGrowthData_eval locationTrendsData_def counts_def)

theorem growth_points_follow_formula_witness:
  "0 < (1::nat) \<and> 1 < length networkServerGrowthData \<and>
   networkServerGrowthData ! 1 =
     \<lparr>year = year (locationTrendsData ! 1),
      growth = spec_growth (network_server (locationTrendsData ! (1 - 1)))
                           (network_server (locationTrendsData ! 1))\<rparr>
   \<and> network_server (counts 2014 0 0 0 0 0 0 0) = 0
   \<and> parseFloat (growthRate (counts 2014 0 0 0 0 0 0 0) (counts 2015 11 15 9 17 9 4 65)) = 0"
proof -
  have h: "0 < (1::nat) \<and> 1 < length networkServerGrowthData"
    by (simp add: networkServerGrowthData_eval)
  have z: "network_server (counts 2014 0 0 0 0 0 0 0) = 0"
    by (simp add: counts_def)
  note formula = growth_points_follow_formula [THEN conjunct1, THEN spec, of 1]
  note fallback = growth_points_follow_formula [THEN conjunct2, THEN conjunct1, THEN spec,
      THEN spec, of "counts 2014 0 0 0 0 0 0 0" "counts 2015 11 15 9 17 9 4 65"]
  from h z formula [THEN mp, OF h] fallback [THEN mp, OF z] show ?thesis
    by (intro conjI) simp_all
qed

text \<open>
  C9. For every row of the counts table but the first, the Network Server count of the
  row before is positive: the divisor is not zero, and \<open>growthRate\<close> is the string of
  \<open>toFixed(1)\<close>, never the number 0 of the other branch.
\<close>

theorem previous_count_positive:
  "\<forall>i. 0 < i \<and> i < length locationTrendsData \<longrightarrow>
     0 < network_server (locationTrendsData ! (i - 1))
     \<and> (of_int (network_server (locationTrendsData ! (i - 1))) :: rat) \<noteq> 0
     \<and> (\<exists>n. growthRate (locationTrendsData ! (i - 1)) (locationTrendsData ! i) = Fixed1 n)"
proof (intro allI impI)
  fix i assume i: "0 < i \<and> i < length locationTrendsData"
  then have "i - 1 < length locationTrendsData" by arith
  then have "i - 1 < length (map network_server locationTrendsData)" by simp
  then have "map network_server locationTrendsData ! (i - 1)
             \<in> set (map network_server locationTrendsData)"
    by (rule nth_mem)
  then have "map network_server locationTrendsData ! (i - 1)
             \<in> set [11, 65, 65, 48, 97, 199, 264, 258, 302, 330, 111]"
    by (simp only: locationTrendsData_network_server)
  then have "0 < map network_server locationTrendsData ! (i - 1)" by auto
  moreover have "map network_server locationTrendsData ! (i - 1)
                 = network_server (locationTrendsData ! (i - 1))"
    using i by (intro nth_map) arith
  ultimately have pos: "0 < network_server (locationTrendsData ! (i - 1))" by simp
  then show "0 < network_server (locationTrendsData ! (i - 1))
     \<and> (of_int (network_server (locationTrendsData ! (i - 1))) :: rat) \<noteq> 0
     \<and> (\<exists>n. growthRate (locationTrendsData ! (i - 1)) (locationTrendsData ! i) = Fixed1 n)"
    by (simp add: growthRate_def)
qed

theorem previous_count_positive_witness:
  "0 < (1::nat) \<and> 1 < length locationTrendsData
   \<and> 0 < network_server (locationTrendsData ! (1 - 1))
   \<and> growthRate (locationTrendsData ! (1 - 1)) (locationTrendsData ! 1) = Fixed1 4909"
proof -
  have h: "0 < (1::nat) \<and> 1 < length locationTrendsData"
    by (simp add: locationTrendsData_def)
  from previous_count_positive h
  have "0 < network_server (locationTrendsData ! (1 - 1))" by blast
  moreover have "growthRate (locationTrendsData ! (1 - 1)) (locationTrendsData ! 1) = Fixed1 4909"
    by code_simp
  ultimately show ?thesis using h by blast
qed

section \<open>Sorting by the comparator\<close>

lemma cagr_comparator_le: "cagr_comparator a b \<le> 0 \<longleftrightarrow> cagr b \<le> cagr a"
  by (simp add: cagr_comparator_def js_sub_def dbl_le_0_iff)

lemma mset_insert_by: "mset (insert_by cmp x ys) = add_mset x (mset ys)"
  by (induction ys) simp_all

lemma mset_array_sort: "mset (array_sort cmp xs) = mset xs"
  by (induction xs) (simp_all add: array_sort_def mset_insert_by)

lemma set_insert_by: "set (insert_by cmp x ys) = insert x (set ys)"
  by (induction ys) auto

lemma descending_insert_by:
  "descending ys \<Longrightarrow> descending (insert_by cagr_comparator x ys)"
proof (induction ys)
  case Nil
  then show ?case by (simp add: descending_def)
next
  case (Cons y ys)
  show ?case
  proof (cases "cagr y \<le> cagr x")
    case True
    with Cons.prems show ?thesis
      by (auto simp: descending_def cagr_comparator_le)
  next
    case False
    with Cons show ?thesis
      by (auto simp: descending_def cagr_comparator_le set_insert_by)
  qed
qed

lemma descending_ranking: "descending (ranking rs)"
  by (induction rs) (simp_all add: ranking_def array_sort_def descending_insert_by, simp add: descending_def)

lemma insert_by_descending_head:
  "descending (x # ys) \<Longrightarrow> insert_by cagr_comparator x ys = x # ys"
  by (cases ys) (simp_all add: descending_def cagr_comparator_le)

lemma ranking_fixpoint: "descending rs \<Longrightarrow> ranking rs = rs"
proof (induction rs)
  case Nil
  then show ?case by (simp add: ranking_def array_sort_def)
next
  case (Cons r rs)
  from Cons.prems have "descending rs" by (simp add: descending_def)
  then have "ranking rs = rs" by (rule Cons.IH)
  then have "ranking (r # rs) = insert_by cagr_comparator r rs"
    by (simp add: ranking_def array_sort_def)
  with Cons.prems show ?case by (simp add: insert_by_descending_head)
qed

lemma filter_insert_by:
  "descending ys \<Longrightarrow>
   filter (\<lambda>e. cagr e = k) (insert_by cagr_comparator x ys) =
     (if cagr x = k then x # filter (\<lambda>e. cagr e = k) ys else filter (\<lambda>e. cagr e = k) ys)"
proof (induction ys)
  case Nil
  then show ?case by simp
next
  case (Cons y ys)
  from Cons.prems have d: "descending ys" by (simp add: descending_def)
  show ?case
  proof (cases "cagr y \<le> cagr x")
    case True
    then show ?thesis by (simp add: cagr_comparator_le)
  next
    case False
    then have "cagr x \<noteq> cagr y" by simp
    with False Cons.IH [OF d] show ?thesis by (auto simp: cagr_comparator_le)
  qed
qed

lemma ranking_stable: "filter (\<lambda>e. cagr e = k) (ranking rs) = filter (\<lambda>e. cagr e = k) rs"
proof (induction rs)
  case Nil
  then show ?case by (simp add: ranking_def array_sort_def)
next
  case (Cons r rs)
  have "ranking (r # rs) = insert_by cagr_comparator r (ranking rs)"
    by (simp add: ranking_def array_sort_def)
  then show ?case using Cons.IH descending_ranking [of rs] by (simp add: filter_insert_by)
qed

section \<open>The ranking\<close>

lemma locationGrowthRates_eval:
  "locationGrowthRates =
    [rate ''Network Server'' 45.92,
     rate ''Email'' 27.55,
     rate ''Other'' 9.87,
     rate ''Electronic Medical Record'' 7.32,
     rate ''Desktop Computer'' (- 3.15),
     rate ''Paper/Films'' (- 3.80)]"
  by code_simp

text \<open>
  C4. The ranking of any list of entries is in descending order of CAGR, and the entries
  of one and the same CAGR keep the order they had in the list (the sort is stable). The
  ranking of the literal list begins with Network Server, 45.92, and ends with
  Paper/Films, -3.80.
\<close>

theorem ranking_sorted_descending_stable:
  "descending (ranking rs)
   \<and> filter (\<lambda>e. cagr e = k) (ranking rs) = filter (\<lambda>e. cagr e = k) rs
   \<and> descending locationGrowthRates
   \<and> hd locationGrowthRates = \<lparr>name = ''Network Server'', cagr = dbl 45.92\<rparr>
   \<and> last locationGrowthRates = \<lparr>name = ''Paper/Films'', cagr = dbl (- 3.80)\<rparr>"
proof -
  have "descending locationGrowthRates"
    unfolding locationGrowthRates_def by (rule descending_ranking)
  then show ?thesis
    by (simp add: descending_ranking ranking_stable) (simp add: locationGrowthRates_eval rate_def)
qed

text \<open>
  C10. The ranking holds the very entries of the list it is made from, each as often as
  the list does, so each name with the CAGR written for it. The ranking of the literal
  list has six entries, and their names are the six categories, each once.
\<close>

theorem ranking_permutation:
  "mset (ranking rs) = mset rs
   \<and> mset locationGrowthRates = mset locationGrowthRates_literal
   \<and> length locationGrowthRates = 6
   \<and> distinct (map name locationGrowthRates)
   \<and> mset (map name locationGrowthRates) = mset categories"
proof (intro conjI)
  show "mset (ranking rs) = mset rs"
    by (simp add: ranking_def mset_array_sort)
  show "mset locationGrowthRates = mset locationGrowthRates_literal"
    by (simp add: locationGrowthRates_def ranking_def mset_array_sort)
  show "length locationGrowthRates = 6"
    by (simp add: locationGrowthRates_eval)
  have names: "map name locationGrowthRates =
      [''Network Server'', ''Email'', ''Other'', ''Electronic Medical Record'',
       ''Desktop Computer'', ''Paper/Films'']"
    by (simp add: locationGrowthRates_eval rate_def)
  show "distinct (map name locationGrowthRates)"
    by (simp add: names)
  show "mset (map name locationGrowthRates) = mset categories"
    by (simp add: names categories_def)
qed

lemma ranking_idem: "ranking (ranking rs) = ranking rs"
  by (rule ranking_fixpoint) (rule descending_ranking)

text \<open>
  C8. Whatever the two arrays hold, deriving the growth series, or the ranking, a second
  time from the arrays as the first derivation left them gives the result of the first
  time, also after the other derivation has run, although \<open>sort\<close> reorders its array
  in place. On the literals the two derivations give the series and the ranking that the
  component charts.
\<close>

theorem derivations_repeatable:
  "fst (derive_growth (snd (derive_growth s))) = fst (derive_growth s)
   \<and> fst (derive_ranking (snd (derive_ranking s))) = fst (derive_ranking s)
   \<and> fst (derive_growth (snd (derive_ranking s))) = fst (derive_growth s)
   \<and> fst (derive_ranking (snd (derive_growth s))) = fst (derive_ranking s)
   \<and> fst (derive_growth literals) = networkServerGrowthData
   \<and> fst (derive_ranking literals) = locationGrowthRates"
  by (simp add: derive_growth_def derive_ranking_def Let_def ranking_idem literals_def
        networkServerGrowthData_def locationGrowthRates_def)

section \<open>The percentage table\<close>

lemma percentageDistributionData_years:
  "map year percentageDistributionData =
     [2015, 2016, 2017, 2018, 2019, 2020, 2021, 2022, 2023, 2024, 2025]"
  by (simp add: percentageDistributionData_def percentages_def)

lemma percentage_sums_near_100:
  "list_all (\<lambda>r. \<bar>percentage_sum r - 100\<bar> \<le> 0.2) percentageDistributionData"
  by code_simp

text \<open>
  C7. The percentage table has the 11 year rows 2015 to 2025, and in every one of them
  the six percentage values (Network Server, Email, Electronic Medical Record,
  Paper/Films, Other, Desktop Computer) add up to a number within 0.2 of 100.
\<close>

theorem percentage_rows_sum_near_100:
  "map year percentageDistributionData =
     [2015, 2016, 2017, 2018, 2019, 2020, 2021, 2022, 2023, 2024, 2025]
   \<and> (\<forall>r \<in> set percentageDistributionData. \<bar>percentage_sum r - 100\<bar> \<le> 0.2)"
  using percentageDistributionData_years percentage_sums_near_100
  by (simp only: list_all_iff)

theorem percentage_rows_sum_near_100_witness:
  "percentages 2016 34.2 15.8 9.5 13.2 21.1 6.3 \<in> set percentageDistributionData
   \<and> \<bar>percentage_sum (percentages 2016 34.2 15.8 9.5 13.2 21.1 6.3) - 100\<bar> \<le> 0.2"
proof -
  have m: "percentages 2016 34.2 15.8 9.5 13.2 21.1 6.3 \<in> set percentageDistributionData"
    by (simp add: percentageDistributionData_def)
  from percentage_rows_sum_near_100 have
    "\<forall>r \<in> set percentageDistributionData. \<bar>percentage_sum r - 100\<bar> \<le> 0.2" by (rule conjunct2)
  with m show ?thesis by blast
qed

section \<open>The selector and the colours\<close>

lemma chart_area_unknown: "v \<notin> set view_ids \<Longrightarrow> chart_area v = []"
  by (simp add: view_ids_def chart_area_def)

text \<open>
  C5, as stated, fails: \<open>pie\<close> is none of the five identifiers, and what the component
  shows for it is not what it shows in its initial state.
\<close>

theorem unknown_view_counterexample:
  "''pie'' \<notin> set view_ids \<and> chart_area ''pie'' \<noteq> chart_area initial_chartType"
  by (simp add: view_ids_def chart_area_def initial_chartType_def)

text \<open>
  C5, amended. For every selector value that is none of the five identifiers the chart
  container is empty: no chart is rendered, the one of \<open>absolute\<close> neither, and there
  is nothing in the rendering that could raise an error. The initial state, the value
  \<open>absolute\<close>, renders the chart of absolute numbers.
\<close>

theorem unknown_view_renders_no_chart:
  "(v \<notin> set view_ids \<longrightarrow> chart_area v = [])
   \<and> chart_area initial_chartType = [absolute_chart]"
  by (simp add: chart_area_unknown) (simp add: chart_area_def initial_chartType_def)

theorem unknown_view_renders_no_chart_witness:
  "''pie'' \<notin> set view_ids \<and> chart_area ''pie'' = []"
proof -
  have h: "''pie'' \<notin> set view_ids" by (simp add: view_ids_def)
  from unknown_view_renders_no_chart [of "''pie''"] h show ?thesis by blast
qed











end
